theory Spec2Isabelle
  imports Main
begin

section \<open>JavaScript values\<close>

text \<open>
  The composable \<^verbatim>\<open>createListingComposable\<close> works on untyped JavaScript data: search
  criteria, the router's query and the filters of a listing are plain objects. A value
  is one of the JSON-like shapes below. An object is the list of its own properties in
  enumeration order; numbers are integers (fractions, NaN and the infinities are not
  values of the model).
\<close>

datatype jsval =
    JUndefined
  | JNull
  | JBool bool
  | JNum int
  | JStr string
  | JArr "jsval list"
  | JObj "(string \<times> jsval) list"

type_synonym jsobj = "(string \<times> jsval) list"

text \<open>Truthiness, as \<^verbatim>\<open>||\<close>, \<^verbatim>\<open>&&\<close>, \<^verbatim>\<open>!\<close> and \<^verbatim>\<open>if\<close> test it.\<close>

fun truthy :: "jsval \<Rightarrow> bool" where
  "truthy JUndefined = False"
| "truthy JNull = False"
| "truthy (JBool b) = b"
| "truthy (JNum n) = (n \<noteq> 0)"
| "truthy (JStr s) = (s \<noteq> [])"
| "truthy (JArr xs) = True"
| "truthy (JObj kvs) = True"

text \<open>\<^verbatim>\<open>a || b\<close>\<close>

definition js_or :: "jsval \<Rightarrow> jsval \<Rightarrow> jsval" where
  "js_or a b = (if truthy a then a else b)"

text \<open>\<^verbatim>\<open>o[k]\<close> on an object: the property, or undefined when there is none.\<close>

definition get_prop :: "jsobj \<Rightarrow> string \<Rightarrow> jsval" where
  "get_prop obj k = (case map_of obj k of None \<Rightarrow> JUndefined | Some v \<Rightarrow> v)"

text \<open>
  \<^verbatim>\<open>v.k\<close> on a value that is neither null nor undefined. Numbers, booleans, strings
  and arrays have no property of the names read here (\<^verbatim>\<open>min\<close>, \<^verbatim>\<open>max\<close>).
\<close>

fun member :: "jsval \<Rightarrow> string \<Rightarrow> jsval" where
  "member (JObj kvs) k = get_prop kvs k"
| "member v k = JUndefined"

text \<open>
  \<^verbatim>\<open>o[k] = v\<close>: an existing property keeps its place in the enumeration order, a new
  one goes last. (JavaScript enumerates keys that are array indices before all others;
  the keys of criteria, queries and filters are names, and the model keeps every key in
  the order of insertion.)
\<close>

primrec set_prop :: "string \<Rightarrow> jsval \<Rightarrow> jsobj \<Rightarrow> jsobj" where
  "set_prop k v [] = [(k, v)]"
| "set_prop k v (p # ps) = (if fst p = k then (k, v) # ps else p # set_prop k v ps)"

text \<open>\<^verbatim>\<open>{...a, ...b}\<close>: the properties of \<open>b\<close> are assigned onto a copy of \<open>a\<close>, in order.\<close>

definition spread2 :: "jsobj \<Rightarrow> jsobj \<Rightarrow> jsobj" where
  "spread2 a b = fold (\<lambda>kv acc. set_prop (fst kv) (snd kv) acc) b a"

text \<open>\<^verbatim>\<open>Object.keys(o)\<close>\<close>

definition object_keys :: "jsobj \<Rightarrow> string list" where
  "object_keys obj = map fst obj"



section \<open>Deep merge\<close>

text \<open>
  Modelled from the spec: \<^verbatim>\<open>merge\<close> is imported from \<^verbatim>\<open>lodash/merge\<close>, which is not
  among the source files. Section 4.1 of the specification describes it: for each key
  present in the source it overwrites the corresponding key of the destination,
  recursively for nested objects; keys absent from the source keep the destination's
  value. \<open>merge_into dst src\<close> is \<^verbatim>\<open>merge(dst, src)\<close>.
\<close>

function merge_into :: "jsobj \<Rightarrow> jsobj \<Rightarrow> jsobj" where
  "merge_into dst [] = dst"
| "merge_into dst ((k, v) # src) =
     merge_into
       (set_prop k
          (case v of
             JObj sv \<Rightarrow> (case map_of dst k of
                          Some (JObj dv) \<Rightarrow> JObj (merge_into dv sv)
                        | _ \<Rightarrow> v)
           | _ \<Rightarrow> v)
          dst)
       src"
  by pat_completeness auto
termination
  by (relation "measure (\<lambda>(dst, src). size_list (size_prod (\<lambda>_. 0) size) src)") auto

text \<open>
  \<^verbatim>\<open>merge({}, searchDefaults, criteria)\<close>: the sources are merged into a fresh empty
  object from left to right.
\<close>

definition merge3 :: "jsobj \<Rightarrow> jsobj \<Rightarrow> jsobj" where
  "merge3 defaults criteria = merge_into (merge_into [] defaults) criteria"




subsection \<open>The merge on objects held by reference\<close>

text \<open>
  The search defaults and the criteria are objects that the caller keeps: whether the
  criteria build changes them depends on which object \<^verbatim>\<open>merge\<close> writes to. The store
  holds the objects of the program by address; a new object takes the next address.
  An object nested in another is part of that object's value here: a change inside a
  nested object of the defaults is a change of the defaults. That two objects share a
  nested object is not represented.
\<close>

type_synonym addr = nat

type_synonym object_store = "jsobj list"

text \<open>The object literal \<^verbatim>\<open>{}\<close>: a new, empty object.\<close>

definition new_object :: "object_store \<Rightarrow> addr \<times> object_store" where
  "new_object h = (length h, h @ [[]])"

text \<open>
  Modelled from the spec: \<^verbatim>\<open>merge(object, source)\<close> of \<^verbatim>\<open>lodash/merge\<close>, which is not
  among the source files. What is assigned is \<open>merge_into\<close>, after section 4.1 of the
  specification; that it is assigned to the first argument, which is also returned, is
  how the source uses it: it passes a new \<^verbatim>\<open>{}\<close> first and takes the value of the
  call as the criteria. The sources are applied from left to right.
\<close>

definition merge_at :: "addr \<Rightarrow> addr \<Rightarrow> object_store \<Rightarrow> object_store" where
  "merge_at object source h = h[object := merge_into (h ! object) (h ! source)]"

definition lodash_merge :: "addr \<Rightarrow> addr list \<Rightarrow> object_store \<Rightarrow> addr \<times> object_store" where
  "lodash_merge object sources h = (object, fold (merge_at object) sources h)"

text \<open>
  \<^verbatim>\<open>const searchCriteria = merge({}, searchDefaults, criteria)\<close>, the criteria build of
  \<^verbatim>\<open>initSearch\<close>, \<^verbatim>\<open>search\<close> and \<^verbatim>\<open>loadMore\<close>, on references to the defaults and
  the criteria.
\<close>

definition build_searchCriteria :: "addr \<Rightarrow> addr \<Rightarrow> object_store \<Rightarrow> addr \<times> object_store" where
  "build_searchCriteria defaults_ref criteria_ref h =
     (case new_object h of
        (target, h1) \<Rightarrow> lodash_merge target [defaults_ref, criteria_ref] h1)"

section \<open>Listings, store, router\<close>

text \<open>
  Modelled from the spec: the interface \<^verbatim>\<open>ProductListingResult\<close> is imported from
  \<^verbatim>\<open>@shopware-pwa/commons\<close>, which is not among the source files. Section 3 of the
  specification gives its fields: a sequence of elements, the integers \<^verbatim>\<open>total\<close>,
  \<^verbatim>\<open>page\<close> and \<^verbatim>\<open>limit\<close>, a mapping \<^verbatim>\<open>currentFilters\<close>, and further fields
  (sortings, aggregations) that the operations below only copy. Every field may be
  missing from a result (\<open>None\<close>: the property is undefined or null).
\<close>

record 'e ProductListingResult =
  elements :: "'e list option"
  total :: "int option"
  limit :: "int option"
  page :: "int option"
  currentFilters :: "jsobj option"
  otherFields :: jsobj

text \<open>The empty object \<^verbatim>\<open>{}\<close> read as a listing.\<close>

definition emptyListing :: "'e ProductListingResult" where
  "emptyListing =
     \<lparr>elements = None, total = None, limit = None, page = None,
      currentFilters = None, otherFields = []\<rparr>"

text \<open>\<^verbatim>\<open>n || d\<close> for an optional number \<open>n\<close>: a missing number and zero are falsy.\<close>

definition num_or :: "int option \<Rightarrow> int \<Rightarrow> int" where
  "num_or n d = (case n of None \<Rightarrow> d | Some m \<Rightarrow> if m = 0 then d else m)"

text \<open>A slot of the store: nothing stored yet, null, or a listing.\<close>

datatype 'a slot = Undefined | Null | Stored 'a

text \<open>What the component can raise: the rejection of a promise, or a TypeError.\<close>

datatype error = Rejected jsval | TypeError

text \<open>The calls made to the injected collaborators, in order.\<close>

datatype call = RouterReplace jsobj | SearchCall jsobj

text \<open>
  Modelled from the spec: the Vuex store and the router come from the application
  context and are not among the source files. Section 6 of the specification gives the
  store as two namespaces of named slots with get and set, and the router as the current
  query with a \<^verbatim>\<open>replace\<close> whose failure is ignored. The state holds both, the two
  flags of the composable, and the trace of calls.
\<close>

record 'e state =
  initialListings :: "string \<Rightarrow> 'e ProductListingResult slot"
  appliedListings :: "string \<Rightarrow> 'e ProductListingResult slot"
  query :: jsobj
  loading :: bool
  loadingMore :: bool
  trace :: "call list"

text \<open>
  The arguments of \<^verbatim>\<open>createListingComposable\<close>. The search method answers a request
  with a rejection or a result; \<open>routerAccepts\<close> says whether the router completes a
  navigation to a query or rejects it.
\<close>

record 'e config =
  listingKey :: string
  searchDefaults :: jsobj
  searchMethod :: "jsobj \<Rightarrow> error + 'e ProductListingResult"
  routerAccepts :: "jsobj \<Rightarrow> bool"

text \<open>The second argument of \<^verbatim>\<open>search\<close>.\<close>

record search_options =
  preventRouteChange :: "bool option"

text \<open>The mutations \<^verbatim>\<open>SET_INITIAL_LISTING\<close> and \<^verbatim>\<open>SET_APPLIED_LISTING\<close>.\<close>

definition commit_SET_INITIAL_LISTING ::
  "string \<Rightarrow> 'e ProductListingResult \<Rightarrow> 'e state \<Rightarrow> 'e state" where
  "commit_SET_INITIAL_LISTING key initialListing s =
     s\<lparr>initialListings := (initialListings s)(key := Stored initialListing)\<rparr>"

definition commit_SET_APPLIED_LISTING ::
  "string \<Rightarrow> 'e ProductListingResult slot \<Rightarrow> 'e state \<Rightarrow> 'e state" where
  "commit_SET_APPLIED_LISTING key appliedListing s =
     s\<lparr>appliedListings := (appliedListings s)(key := appliedListing)\<rparr>"

text \<open>
  \<^verbatim>\<open>router.replace({query})\<close>: the call is traced; an accepted navigation makes the
  query current, a rejected one leaves it and rejects the promise.
\<close>

definition router_replace ::
  "'e config \<Rightarrow> jsobj \<Rightarrow> 'e state \<Rightarrow> 'e state \<times> (error + unit)" where
  "router_replace cfg q s =
     (let s' = s\<lparr>trace := trace s @ [RouterReplace q]\<rparr>
      in if routerAccepts cfg q then (s'\<lparr>query := q\<rparr>, Inr ())
         else (s', Inl (Rejected JUndefined)))"

text \<open>\<^verbatim>\<open>promise.catch(() => {})\<close>: whatever the promise did, nothing is raised.\<close>

definition catch_ignore :: "'s \<times> (error + unit) \<Rightarrow> 's" where
  "catch_ignore r = fst r"

text \<open>
  \<^verbatim>\<open>await searchMethod(searchCriteria)\<close>: the call is traced. An operation is taken
  on its own: nothing else changes the state between the call and its answer.
\<close>

definition call_searchMethod ::
  "'e config \<Rightarrow> jsobj \<Rightarrow> 'e state \<Rightarrow> 'e state \<times> (error + 'e ProductListingResult)" where
  "call_searchMethod cfg searchCriteria s =
     (s\<lparr>trace := trace s @ [SearchCall searchCriteria]\<rparr>, searchMethod cfg searchCriteria)"

section \<open>The composable\<close>

definition getInitialListing :: "'e config \<Rightarrow> 'e state \<Rightarrow> 'e ProductListingResult" where
  "getInitialListing cfg s =
     (case initialListings s (listingKey cfg) of
        Stored l \<Rightarrow> l
      | _ \<Rightarrow> emptyListing)"

definition appliedListing_get :: "'e config \<Rightarrow> 'e state \<Rightarrow> 'e ProductListingResult slot" where
  "appliedListing_get cfg s = appliedListings s (listingKey cfg)"

definition appliedListing_set ::
  "'e config \<Rightarrow> 'e ProductListingResult slot \<Rightarrow> 'e state \<Rightarrow> 'e state" where
  "appliedListing_set cfg v s = commit_SET_APPLIED_LISTING (listingKey cfg) v s"

definition setInitialListing ::
  "'e config \<Rightarrow> 'e ProductListingResult \<Rightarrow> 'e state \<Rightarrow> 'e state" where
  "setInitialListing cfg initialListing s =
     appliedListing_set cfg Null
       (commit_SET_INITIAL_LISTING (listingKey cfg) initialListing s)"

definition getCurrentListing :: "'e config \<Rightarrow> 'e state \<Rightarrow> 'e ProductListingResult" where
  "getCurrentListing cfg s =
     (case appliedListing_get cfg s of
        Stored l \<Rightarrow> l
      | _ \<Rightarrow> getInitialListing cfg s)"

definition getElements :: "'e config \<Rightarrow> 'e state \<Rightarrow> 'e list" where
  "getElements cfg s =
     (case elements (getCurrentListing cfg s) of None \<Rightarrow> [] | Some es \<Rightarrow> es)"

definition getTotal :: "'e config \<Rightarrow> 'e state \<Rightarrow> int" where
  "getTotal cfg s = num_or (total (getCurrentListing cfg s)) 0"

definition getLimit :: "'e config \<Rightarrow> 'e state \<Rightarrow> jsval" where
  "getLimit cfg s =
     (case limit (getCurrentListing cfg s) of
        Some n \<Rightarrow> if n \<noteq> 0 then JNum n
                  else js_or (get_prop (searchDefaults cfg) ''limit'') (JNum 10)
      | None \<Rightarrow> js_or (get_prop (searchDefaults cfg) ''limit'') (JNum 10))"

definition getCurrentPage :: "'e config \<Rightarrow> 'e state \<Rightarrow> int" where
  "getCurrentPage cfg s = num_or (page (getCurrentListing cfg s)) 1"

text \<open>
  \<^verbatim>\<open>try { ... } catch (e) { throw e; } finally { flag.value = false; }\<close>: the flag
  is reset whatever the body did, and the body's outcome is the outcome.
\<close>

definition finally_loading :: "'e state \<times> (error + unit) \<Rightarrow> 'e state \<times> (error + unit)" where
  "finally_loading r = ((fst r)\<lparr>loading := False\<rparr>, snd r)"

definition finally_loadingMore :: "'e state \<times> (error + unit) \<Rightarrow> 'e state \<times> (error + unit)" where
  "finally_loadingMore r = ((fst r)\<lparr>loadingMore := False\<rparr>, snd r)"

definition initSearch :: "'e config \<Rightarrow> jsobj \<Rightarrow> 'e state \<Rightarrow> 'e state \<times> (error + unit)" where
  "initSearch cfg criteria s0 =
     (let s1 = s0\<lparr>loading := True\<rparr>;
          searchCriteria = merge3 (searchDefaults cfg) criteria
      in finally_loading
           (case call_searchMethod cfg searchCriteria s1 of
              (s2, Inl e) \<Rightarrow> (s2, Inl e)
            | (s2, Inr result) \<Rightarrow> (setInitialListing cfg result s2, Inr ())))"

definition search ::
  "'e config \<Rightarrow> jsobj \<Rightarrow> search_options option \<Rightarrow> 'e state \<Rightarrow> 'e state \<times> (error + unit)" where
  "search cfg criteria options s0 =
     (let s1 = s0\<lparr>loading := True\<rparr>;
          changeRoute = (case options of
                           None \<Rightarrow> True
                         | Some opts \<Rightarrow> preventRouteChange opts \<noteq> Some True);
          s2 = (if changeRoute then catch_ignore (router_replace cfg (spread2 [] criteria) s1)
                else s1);
          searchCriteria = merge3 (searchDefaults cfg) criteria
      in finally_loading
           (case call_searchMethod cfg searchCriteria s2 of
              (s3, Inl e) \<Rightarrow> (s3, Inl e)
            | (s3, Inr result) \<Rightarrow> (appliedListing_set cfg (Stored result) s3, Inr ())))"

definition loadMore :: "'e config \<Rightarrow> 'e state \<Rightarrow> 'e state \<times> (error + unit)" where
  "loadMore cfg s0 =
     (let s1 = s0\<lparr>loadingMore := True\<rparr>;
          query' = set_prop ''p'' (JNum (getCurrentPage cfg s1 + 1)) (spread2 [] (query s1));
          searchCriteria = merge3 (searchDefaults cfg) query'
      in finally_loadingMore
           (case call_searchMethod cfg searchCriteria s1 of
              (s2, Inl e) \<Rightarrow> (s2, Inl e)
            | (s2, Inr result) \<Rightarrow>
                (case elements result of
                   None \<Rightarrow> (s2, Inl TypeError)
                 | Some newElements \<Rightarrow>
                     (appliedListing_set cfg
                        (Stored ((getCurrentListing cfg s2)
                           \<lparr>page := page result,
                            elements :=
                              Some ((case elements (getCurrentListing cfg s2) of
                                       None \<Rightarrow> []
                                     | Some es \<Rightarrow> es) @ newElements)\<rparr>))
                        s2,
                      Inr ()))))"

text \<open>\<^verbatim>\<open>Math.ceil(a / b)\<close> on two integers.\<close>

datatype jsnum = Fin int | NaN | PosInfinity | NegInfinity

definition ceil_div :: "int \<Rightarrow> int \<Rightarrow> jsnum" where
  "ceil_div a b =
     (if b = 0 then (if a = 0 then NaN else if 0 < a then PosInfinity else NegInfinity)
      else Fin (- ((- a) div b)))"

text \<open>
  \<^verbatim>\<open>Math.ceil(getTotal.value / getLimit.value)\<close>. The limit is a number wherever the
  search defaults hold a number; the conversion of any other truthy value to a number
  is not part of the model (\<open>None\<close>).
\<close>

definition getTotalPagesCount :: "'e config \<Rightarrow> 'e state \<Rightarrow> jsnum option" where
  "getTotalPagesCount cfg s =
     (case getLimit cfg s of
        JNum l \<Rightarrow> Some (ceil_div (getTotal cfg s) l)
      | _ \<Rightarrow> None)"

definition changeCurrentSortingOrder ::
  "'e config \<Rightarrow> jsval \<Rightarrow> 'e state \<Rightarrow> 'e state \<times> (error + unit)" where
  "changeCurrentSortingOrder cfg order s =
     (let query' = set_prop ''order'' order (spread2 [] (query s))
      in search cfg query' None s)"

definition changeCurrentPage ::
  "'e config \<Rightarrow> jsval \<Rightarrow> 'e state \<Rightarrow> 'e state \<times> (error + unit)" where
  "changeCurrentPage cfg pageNumber s =
     (let query' = set_prop ''p'' (js_or pageNumber (JNum 1)) (spread2 [] (query s))
      in search cfg query' None s)"

text \<open>
  One round of the \<^verbatim>\<open>forEach\<close> in \<^verbatim>\<open>getCurrentFilters\<close>: \<open>acc\<close> is
  \<^verbatim>\<open>currentFiltersResult\<close>.
\<close>

definition filter_step :: "jsobj \<Rightarrow> string \<Rightarrow> jsobj \<Rightarrow> jsobj" where
  "filter_step cf objectKey acc =
     (if \<not> truthy (get_prop cf objectKey) then acc
      else if objectKey = ''navigationId'' then acc
      else if objectKey = ''price'' then
        (let acc1 = (if truthy (member (get_prop cf objectKey) ''min'')
                     then set_prop ''min-price'' (member (get_prop cf objectKey) ''min'') acc
                     else acc)
         in if truthy (member (get_prop cf objectKey) ''max'')
            then set_prop ''max-price'' (member (get_prop cf objectKey) ''max'') acc1
            else acc1)
      else if objectKey = ''p'' then acc
      else set_prop objectKey (get_prop cf objectKey) acc)"

text \<open>The merged filters \<^verbatim>\<open>{...currentListing.currentFilters, ...query}\<close>.\<close>

definition mergedFilters :: "'e config \<Rightarrow> 'e state \<Rightarrow> jsobj" where
  "mergedFilters cfg s =
     spread2
       (spread2 [] (case currentFilters (getCurrentListing cfg s) of
                      None \<Rightarrow> []
                    | Some f \<Rightarrow> f))
       (query s)"

definition getCurrentFilters :: "'e config \<Rightarrow> 'e state \<Rightarrow> jsobj" where
  "getCurrentFilters cfg s =
     (let cf = mergedFilters cfg s
      in fold (filter_step cf) (object_keys cf) [])"

section \<open>Definitions used in the proofs\<close>

text \<open>
  The value \<^verbatim>\<open>merge\<close> leaves at a key whose source value is \<open>v\<close> and whose destination
  value is \<open>d\<close>, if any: the inner case distinction of \<open>merge_into\<close>.
\<close>

definition merge_value :: "jsval option \<Rightarrow> jsval \<Rightarrow> jsval" where
  "merge_value d v =
     (case v of
        JObj sv \<Rightarrow> (case d of Some (JObj dv) \<Rightarrow> JObj (merge_into dv sv) | _ \<Rightarrow> v)
      | _ \<Rightarrow> v)"

text \<open>
  Example data: the state of a composable that has done nothing yet, the result of
  example 9 of the specification (three elements on page 1, limit 10), and a
  configuration whose search method returns it and whose router rejects every
  navigation.
\<close>

definition freshState :: "'e state" where
  "freshState =
     \<lparr>initialListings = (\<lambda>key. Undefined), appliedListings = (\<lambda>key. Undefined),
      query = [], loading = False, loadingMore = False, trace = []\<rparr>"

definition exampleResult :: "string ProductListingResult" where
  "exampleResult =
     \<lparr>elements = Some [''a'', ''b'', ''c''], total = Some 3, limit = Some 10, page = Some 1,
      currentFilters = None, otherFields = []\<rparr>"

definition exampleConfig :: "string config" where
  "exampleConfig =
     \<lparr>listingKey = ''productSearchListing'', searchDefaults = [(''limit'', JNum 10)],
      searchMethod = (\<lambda>criteria. Inr exampleResult), routerAccepts = (\<lambda>q. False)\<rparr>"

section \<open>Objects\<close>

text \<open>Unfolding sets: the store, the effects, the example data, everything for evaluation.\<close>

lemmas store_defs =
  getCurrentListing_def getInitialListing_def appliedListing_get_def appliedListing_set_def
  commit_SET_APPLIED_LISTING_def commit_SET_INITIAL_LISTING_def setInitialListing_def

lemmas effect_defs =
  call_searchMethod_def router_replace_def catch_ignore_def finally_loading_def
  finally_loadingMore_def

lemmas example_defs = freshState_def exampleResult_def exampleConfig_def emptyListing_def

lemmas eval_defs =
  store_defs effect_defs initSearch_def search_def loadMore_def changeCurrentPage_def
  changeCurrentSortingOrder_def getCurrentPage_def getElements_def getTotal_def getLimit_def
  getTotalPagesCount_def ceil_div_def num_or_def js_or_def get_prop_def merge3_def spread2_def
  getCurrentFilters_def mergedFilters_def filter_step_def object_keys_def Let_def

lemma map_of_set_prop: "map_of (set_prop k v ps) = (map_of ps)(k \<mapsto> v)"
  by (induction ps) auto

lemma keys_set_prop: "set (map fst (set_prop k v ps)) = insert k (set (map fst ps))"
  by (induction ps) auto

lemma map_fst_set_prop:
  "map fst (set_prop k v ps) = (if k \<in> set (map fst ps) then map fst ps else map fst ps @ [k])"
  by (induction ps) auto

lemma distinct_set_prop: "distinct (map fst ps) \<Longrightarrow> distinct (map fst (set_prop k v ps))"
  by (simp add: map_fst_set_prop)

lemma set_prop_fresh: "k \<notin> set (map fst ps) \<Longrightarrow> set_prop k v ps = ps @ [(k, v)]"
  by (induction ps) auto

lemma get_prop_set_prop: "get_prop (set_prop k v ps) k' = (if k' = k then v else get_prop ps k')"
  by (simp add: get_prop_def map_of_set_prop)

lemma spread2_append:
  "distinct (map fst b) \<Longrightarrow> set (map fst a) \<inter> set (map fst b) = {} \<Longrightarrow> spread2 a b = a @ b"
  unfolding spread2_def
proof (induction b arbitrary: a)
  case Nil
  then show ?case by simp
next
  case (Cons kv b)
  have fresh: "fst kv \<notin> set (map fst a)" using Cons.prems(2) by auto
  have "set (map fst (a @ [kv])) \<inter> set (map fst b) = {}"
    using Cons.prems by auto
  then have "fold (\<lambda>kv. set_prop (fst kv) (snd kv)) b (a @ [kv]) = (a @ [kv]) @ b"
    using Cons.IH Cons.prems(1) by simp
  then show ?case using fresh by (simp add: set_prop_fresh)
qed

lemma spread2_copy: "distinct (map fst b) \<Longrightarrow> spread2 [] b = b"
  using spread2_append [of b "[]"] by simp

lemma distinct_spread2: "distinct (map fst a) \<Longrightarrow> distinct (map fst (spread2 a b))"
  unfolding spread2_def
  by (induction b arbitrary: a) (auto simp: distinct_set_prop)

lemma map_of_spread2:
  "distinct (map fst b) \<Longrightarrow> map_of (spread2 a b) = map_of a ++ map_of b"
  unfolding spread2_def
proof (induction b arbitrary: a)
  case Nil
  then show ?case by simp
next
  case (Cons kv b)
  obtain k v where kv: "kv = (k, v)" by (cases kv)
  have nk: "map_of b k = None" using Cons.prems kv by (auto simp: map_of_eq_None_iff)
  have "map_of (fold (\<lambda>kv. set_prop (fst kv) (snd kv)) b (set_prop k v a)) =
        map_of (set_prop k v a) ++ map_of b"
    using Cons.IH Cons.prems by simp
  also have "\<dots> = map_of a ++ map_of ((k, v) # b)"
  proof (rule ext)
    fix x
    show "(map_of (set_prop k v a) ++ map_of b) x = (map_of a ++ map_of ((k, v) # b)) x"
      using nk by (cases "x = k") (simp_all add: map_of_set_prop map_add_def split: option.split)
  qed
  finally show ?case unfolding kv by (simp del: map_of.simps)
qed

lemma map_of_merge_into:
  "distinct (map fst src) \<Longrightarrow>
   map_of (merge_into dst src) k =
     (case map_of src k of
        None \<Rightarrow> map_of dst k
      | Some v \<Rightarrow> Some (merge_value (map_of dst k) v))"
proof (induction src arbitrary: dst)
  case Nil
  then show ?case by simp
next
  case (Cons kv src)
  obtain k' v' where kv: "kv = (k', v')" by (cases kv)
  have nk: "map_of src k' = None" using Cons.prems kv by (auto simp: map_of_eq_None_iff)
  have d: "distinct (map fst src)" using Cons.prems by simp
  show ?case
  proof (cases "k = k'")
    case True
    then have eq: "k' = k" by simp
    show ?thesis
      using kv nk unfolding eq by (simp add: Cons.IH [OF d] map_of_set_prop merge_value_def)
  next
    case False
    then show ?thesis
      using kv by (simp add: Cons.IH [OF d] map_of_set_prop split: option.split)
  qed
qed


section \<open>Key paths of a merge\<close>









section \<open>The criteria build\<close>




text \<open>
  The new \<^verbatim>\<open>{}\<close> is what keeps the defaults: \<^verbatim>\<open>merge(searchDefaults, criteria)\<close> on
  the defaults \<^verbatim>\<open>{limit: 10}\<close> and the criteria \<^verbatim>\<open>{limit: 20}\<close> would leave
  \<^verbatim>\<open>{limit: 20}\<close> where the defaults were, while the criteria build leaves both.
\<close>

lemma merge_into_defaults_mutates:
  "snd (lodash_merge 0 [1] [[(''limit'', JNum 10)], [(''limit'', JNum 20)]]) ! 0
     = [(''limit'', JNum 20)]
   \<and> snd (build_searchCriteria 0 1 [[(''limit'', JNum 10)], [(''limit'', JNum 20)]])
     = [[(''limit'', JNum 10)], [(''limit'', JNum 20)], [(''limit'', JNum 20)]]"
  by (simp add: lodash_merge_def merge_at_def build_searchCriteria_def new_object_def merge3_def)

section \<open>The operations\<close>

lemma getInitialListing_frame [simp]:
  "getInitialListing cfg (s\<lparr>loading := b\<rparr>) = getInitialListing cfg s"
  "getInitialListing cfg (s\<lparr>loadingMore := b\<rparr>) = getInitialListing cfg s"
  "getInitialListing cfg (s\<lparr>trace := t\<rparr>) = getInitialListing cfg s"
  "getInitialListing cfg (s\<lparr>query := q\<rparr>) = getInitialListing cfg s"
  by (simp_all add: getInitialListing_def)

lemma getCurrentListing_frame [simp]:
  "getCurrentListing cfg (s\<lparr>loading := b\<rparr>) = getCurrentListing cfg s"
  "getCurrentListing cfg (s\<lparr>loadingMore := b\<rparr>) = getCurrentListing cfg s"
  "getCurrentListing cfg (s\<lparr>trace := t\<rparr>) = getCurrentListing cfg s"
  "getCurrentListing cfg (s\<lparr>query := q\<rparr>) = getCurrentListing cfg s"
  by (simp_all add: getCurrentListing_def appliedListing_get_def split: slot.split)

lemma getCurrentListing_applied [simp]:
  "getCurrentListing cfg (appliedListing_set cfg (Stored l) s) = l"
  by (simp add: store_defs)

lemma getCurrentPage_frame [simp]:
  "getCurrentPage cfg (s\<lparr>loadingMore := b\<rparr>) = getCurrentPage cfg s"
  by (simp add: getCurrentPage_def)

lemma distinct_copy: "distinct (map fst (spread2 [] q))"
  by (simp add: distinct_spread2)

lemma get_prop_merge3_number:
  assumes "distinct (map fst q)"
  shows "get_prop (merge3 d (set_prop k (JNum n) q)) k = JNum n"
proof -
  have dq: "distinct (map fst (set_prop k (JNum n) q))"
    using assms by (rule distinct_set_prop)
  have "map_of (set_prop k (JNum n) q) k = Some (JNum n)"
    by (simp add: map_of_set_prop)
  then have "map_of (merge_into (merge_into [] d) (set_prop k (JNum n) q)) k = Some (JNum n)"
    using map_of_merge_into [OF dq, of "merge_into [] d" k] by (simp add: merge_value_def)
  then show ?thesis by (simp add: merge3_def get_prop_def)
qed

text \<open>
  C5 (initial and applied listing). After \<^verbatim>\<open>setInitialListing(l)\<close> the applied listing
  of this key is null and the current listing is \<open>l\<close>. In any state, an applied
  listing that is present is the current listing; without one, the current listing is
  the initial listing.
\<close>

theorem setInitialListing_resets:
  "appliedListing_get cfg (setInitialListing cfg l s) = Null
   \<and> getCurrentListing cfg (setInitialListing cfg l s) = l
   \<and> (appliedListing_get cfg s = Stored a \<longrightarrow> getCurrentListing cfg s = a)
   \<and> ((\<forall>a. appliedListing_get cfg s \<noteq> Stored a) \<longrightarrow>
        getCurrentListing cfg s = getInitialListing cfg s)"
  by (auto simp: store_defs split: slot.splits)

text \<open>
  With a listing of page 4 applied, that listing is current; setting the example result as
  initial listing makes the example result current; with nothing applied the current
  listing is the initial one.
\<close>

theorem setInitialListing_resets_witness:
  "appliedListing_get exampleConfig
     (freshState\<lparr>appliedListings := (\<lambda>key. Stored (exampleResult\<lparr>page := Some 4\<rparr>))\<rparr>)
     = Stored (exampleResult\<lparr>page := Some 4\<rparr>)
   \<and> getCurrentListing exampleConfig
       (freshState\<lparr>appliedListings := (\<lambda>key. Stored (exampleResult\<lparr>page := Some 4\<rparr>))\<rparr>)
     = exampleResult\<lparr>page := Some 4\<rparr>
   \<and> getCurrentListing exampleConfig
       (setInitialListing exampleConfig exampleResult
          (freshState\<lparr>appliedListings := (\<lambda>key. Stored (exampleResult\<lparr>page := Some 4\<rparr>))\<rparr>))
     = exampleResult
   \<and> (\<forall>a. appliedListing_get exampleConfig (freshState :: string state) \<noteq> Stored a)
   \<and> getCurrentListing exampleConfig freshState = getInitialListing exampleConfig freshState"
proof -
  have a: "appliedListing_get exampleConfig
     (freshState\<lparr>appliedListings := (\<lambda>key. Stored (exampleResult\<lparr>page := Some 4\<rparr>))\<rparr>)
     = Stored (exampleResult\<lparr>page := Some 4\<rparr>)"
    by (simp add: appliedListing_get_def freshState_def)
  have n: "\<forall>a. appliedListing_get exampleConfig (freshState :: string state) \<noteq> Stored a"
    by (simp add: appliedListing_get_def freshState_def)
  show ?thesis
    using a n
      setInitialListing_resets [of exampleConfig exampleResult
        "freshState\<lparr>appliedListings := (\<lambda>key. Stored (exampleResult\<lparr>page := Some 4\<rparr>))\<rparr>"
        "exampleResult\<lparr>page := Some 4\<rparr>"]
      setInitialListing_resets [of exampleConfig exampleResult freshState]
    by simp
qed

text \<open>
  C1 (the request of loadMore), as the code has it. Every call of \<^verbatim>\<open>loadMore()\<close>
  sends exactly one request. Its page \<^verbatim>\<open>p\<close> is the page of the current listing (1
  when the listing has no page or page 0) plus 1, and its criteria are the deep merge of
  the search defaults with a copy of the current navigation query in which \<^verbatim>\<open>p\<close> is
  set to that page. The copy of a query is the query.
\<close>

theorem loadMore_request:
  "trace (fst (loadMore cfg s)) =
     trace s @ [SearchCall (merge3 (searchDefaults cfg)
                  (set_prop ''p'' (JNum (num_or (page (getCurrentListing cfg s)) 1 + 1))
                     (spread2 [] (query s))))]
   \<and> get_prop (merge3 (searchDefaults cfg)
                  (set_prop ''p'' (JNum (num_or (page (getCurrentListing cfg s)) 1 + 1))
                     (spread2 [] (query s)))) ''p''
       = JNum (num_or (page (getCurrentListing cfg s)) 1 + 1)
   \<and> (distinct (map fst (query s)) \<longrightarrow> spread2 [] (query s) = query s)"
proof -
  have t: "trace (fst (loadMore cfg s)) =
     trace s @ [SearchCall (merge3 (searchDefaults cfg)
                  (set_prop ''p'' (JNum (num_or (page (getCurrentListing cfg s)) 1 + 1))
                     (spread2 [] (query s))))]"
    by (simp add: loadMore_def effect_defs getCurrentPage_def appliedListing_set_def
        commit_SET_APPLIED_LISTING_def Let_def split: sum.split option.split)
  show ?thesis
    using t get_prop_merge3_number [OF distinct_copy] spread2_copy by blast
qed

text \<open>
  With the example result (page 1) applied and the query \<^verbatim>\<open>{order: "name-asc"}\<close>, the
  request is \<^verbatim>\<open>{limit: 10, order: "name-asc", p: 2}\<close>.
\<close>

theorem loadMore_request_witness:
  "distinct (map fst (query (freshState\<lparr>query := [(''order'', JStr ''name-asc'')],
                                      appliedListings := (\<lambda>key. Stored exampleResult)\<rparr>)))
   \<and> trace (fst (loadMore exampleConfig
                (freshState\<lparr>query := [(''order'', JStr ''name-asc'')],
                            appliedListings := (\<lambda>key. Stored exampleResult)\<rparr>)))
     = [SearchCall [(''limit'', JNum 10), (''order'', JStr ''name-asc''), (''p'', JNum 2)]]"
  using loadMore_request [of exampleConfig
      "freshState\<lparr>query := [(''order'', JStr ''name-asc'')],
                  appliedListings := (\<lambda>key. Stored exampleResult)\<rparr>"]
  by (simp add: eval_defs example_defs)

text \<open>
  C1 as the specification states it takes the page from the navigation query. After
  \<^verbatim>\<open>changeCurrentPage(5)\<close> and one \<^verbatim>\<open>loadMore()\<close> the query still holds page 5 and
  the current listing page 6: the next \<^verbatim>\<open>loadMore()\<close> asks for page 7, not for 5 + 1.
\<close>

theorem loadMore_page_counterexample:
  "get_prop (query (freshState\<lparr>query := [(''p'', JNum 5)],
                      appliedListings := (\<lambda>key. Stored (exampleResult\<lparr>page := Some 6\<rparr>))\<rparr>)) ''p''
     = JNum 5
   \<and> trace (fst (loadMore exampleConfig
                (freshState\<lparr>query := [(''p'', JNum 5)],
                   appliedListings := (\<lambda>key. Stored (exampleResult\<lparr>page := Some 6\<rparr>))\<rparr>)))
     = [SearchCall [(''limit'', JNum 10), (''p'', JNum 7)]]
   \<and> JNum 7 \<noteq> JNum (5 + 1)"
  by (simp add: eval_defs example_defs)

text \<open>
  C3 (accumulation). When the search method answers the request of \<^verbatim>\<open>loadMore()\<close>
  with a result that has elements, \<^verbatim>\<open>loadMore()\<close> resolves, and the new current
  listing is the prior current listing with two fields replaced: its elements are the
  prior elements followed by the result's elements, its page is the result's page.
  Total, limit, current filters and all other fields are those of the prior listing.
\<close>

theorem loadMore_success:
  assumes "searchMethod cfg (merge3 (searchDefaults cfg)
              (set_prop ''p'' (JNum (getCurrentPage cfg s + 1)) (spread2 [] (query s))))
           = Inr result"
    and "elements result = Some newElements"
  shows "snd (loadMore cfg s) = Inr ()
   \<and> getCurrentListing cfg (fst (loadMore cfg s)) =
       (getCurrentListing cfg s)
         \<lparr>page := page result, elements := Some (getElements cfg s @ newElements)\<rparr>
   \<and> elements (getCurrentListing cfg (fst (loadMore cfg s))) =
       Some (getElements cfg s @ newElements)
   \<and> page (getCurrentListing cfg (fst (loadMore cfg s))) = page result
   \<and> total (getCurrentListing cfg (fst (loadMore cfg s))) = total (getCurrentListing cfg s)
   \<and> limit (getCurrentListing cfg (fst (loadMore cfg s))) = limit (getCurrentListing cfg s)
   \<and> currentFilters (getCurrentListing cfg (fst (loadMore cfg s))) =
       currentFilters (getCurrentListing cfg s)
   \<and> otherFields (getCurrentListing cfg (fst (loadMore cfg s))) =
       otherFields (getCurrentListing cfg s)"
proof -
  have r: "snd (loadMore cfg s) = Inr ()"
    using assms by (simp add: loadMore_def effect_defs Let_def)
  have l: "getCurrentListing cfg (fst (loadMore cfg s)) =
       (getCurrentListing cfg s)
         \<lparr>page := page result, elements := Some (getElements cfg s @ newElements)\<rparr>"
    using assms by (simp add: loadMore_def effect_defs getElements_def Let_def)
  show ?thesis using r l by simp
qed

text \<open>
  The example result is applied and the search method returns page 2 with the one element
  \<^verbatim>\<open>d\<close>: the listing then has the elements \<^verbatim>\<open>a, b, c, d\<close>, page 2 and still total 3.
\<close>

theorem loadMore_success_witness:
  "elements (exampleResult\<lparr>elements := Some [''d''], page := Some 2\<rparr>) = Some [''d'']
   \<and> snd (loadMore
       (exampleConfig\<lparr>searchMethod :=
          (\<lambda>criteria. Inr (exampleResult\<lparr>elements := Some [''d''], page := Some 2\<rparr>))\<rparr>)
       (freshState\<lparr>appliedListings := (\<lambda>key. Stored exampleResult)\<rparr>)) = Inr ()
   \<and> getCurrentListing
       (exampleConfig\<lparr>searchMethod :=
          (\<lambda>criteria. Inr (exampleResult\<lparr>elements := Some [''d''], page := Some 2\<rparr>))\<rparr>)
       (fst (loadMore
          (exampleConfig\<lparr>searchMethod :=
             (\<lambda>criteria. Inr (exampleResult\<lparr>elements := Some [''d''], page := Some 2\<rparr>))\<rparr>)
          (freshState\<lparr>appliedListings := (\<lambda>key. Stored exampleResult)\<rparr>)))
     = exampleResult\<lparr>page := Some 2, elements := Some [''a'', ''b'', ''c'', ''d'']\<rparr>"
proof -
  have e: "elements (exampleResult\<lparr>elements := Some [''d''], page := Some 2\<rparr>) = Some [''d'']"
    by simp
  have r: "searchMethod
       (exampleConfig\<lparr>searchMethod :=
          (\<lambda>criteria. Inr (exampleResult\<lparr>elements := Some [''d''], page := Some 2\<rparr>))\<rparr>)
       q = Inr (exampleResult\<lparr>elements := Some [''d''], page := Some 2\<rparr>)" for q
    by simp
  have g: "getElements
       (exampleConfig\<lparr>searchMethod :=
          (\<lambda>criteria. Inr (exampleResult\<lparr>elements := Some [''d''], page := Some 2\<rparr>))\<rparr>)
       (freshState\<lparr>appliedListings := (\<lambda>key. Stored exampleResult)\<rparr>) = [''a'', ''b'', ''c'']"
    by (simp add: getElements_def store_defs example_defs)
  have c: "getCurrentListing
       (exampleConfig\<lparr>searchMethod :=
          (\<lambda>criteria. Inr (exampleResult\<lparr>elements := Some [''d''], page := Some 2\<rparr>))\<rparr>)
       (freshState\<lparr>appliedListings := (\<lambda>key. Stored exampleResult)\<rparr>) = exampleResult"
    by (simp add: store_defs freshState_def)
  show ?thesis
    using e loadMore_success [OF r e,
        of "freshState\<lparr>appliedListings := (\<lambda>key. Stored exampleResult)\<rparr>"]
    unfolding g c by simp
qed

text \<open>
  C2 (search). When the search method answers the merged criteria with a result,
  \<^verbatim>\<open>search(criteria, options)\<close> resolves, the current listing is that result and
  \<^verbatim>\<open>loading\<close> is false. Unless \<^verbatim>\<open>options.preventRouteChange\<close> is true, the router
  was asked, before the search, to replace the query with a copy of the criteria (the
  copy of an object is the object), and the query is that copy when the router accepted;
  with \<^verbatim>\<open>preventRouteChange\<close> true the router is not called. Whether the router
  accepts or rejects, the search resolves.
\<close>

theorem search_success:
  assumes "searchMethod cfg (merge3 (searchDefaults cfg) criteria) = Inr result"
  shows "snd (search cfg criteria options s) = Inr ()
   \<and> getCurrentListing cfg (fst (search cfg criteria options s)) = result
   \<and> loading (fst (search cfg criteria options s)) = False
   \<and> ((options = None \<or> (\<exists>opts. options = Some opts \<and> preventRouteChange opts \<noteq> Some True)) \<longrightarrow>
        trace (fst (search cfg criteria options s)) =
          trace s @ [RouterReplace (spread2 [] criteria),
                     SearchCall (merge3 (searchDefaults cfg) criteria)]
        \<and> query (fst (search cfg criteria options s)) =
            (if routerAccepts cfg (spread2 [] criteria) then spread2 [] criteria else query s))
   \<and> ((\<exists>opts. options = Some opts \<and> preventRouteChange opts = Some True) \<longrightarrow>
        trace (fst (search cfg criteria options s)) =
          trace s @ [SearchCall (merge3 (searchDefaults cfg) criteria)]
        \<and> query (fst (search cfg criteria options s)) = query s)
   \<and> (distinct (map fst criteria) \<longrightarrow> spread2 [] criteria = criteria)"
proof -
  have a: "snd (search cfg criteria options s) = Inr ()"
    using assms by (simp add: search_def effect_defs Let_def)
  have b: "getCurrentListing cfg (fst (search cfg criteria options s)) = result"
    using assms by (simp add: search_def effect_defs Let_def)
  have c: "loading (fst (search cfg criteria options s)) = False"
    by (simp add: search_def effect_defs Let_def split: prod.split sum.split)
  have d: "trace (fst (search cfg criteria options s)) =
          trace s @ [RouterReplace (spread2 [] criteria),
                     SearchCall (merge3 (searchDefaults cfg) criteria)]
        \<and> query (fst (search cfg criteria options s)) =
            (if routerAccepts cfg (spread2 [] criteria) then spread2 [] criteria else query s)"
    if "options = None \<or> (\<exists>opts. options = Some opts \<and> preventRouteChange opts \<noteq> Some True)"
    using that assms
    by (auto simp: search_def effect_defs Let_def appliedListing_set_def
        commit_SET_APPLIED_LISTING_def)
  have e: "trace (fst (search cfg criteria options s)) =
          trace s @ [SearchCall (merge3 (searchDefaults cfg) criteria)]
        \<and> query (fst (search cfg criteria options s)) = query s"
    if "\<exists>opts. options = Some opts \<and> preventRouteChange opts = Some True"
    using that assms
    by (auto simp: search_def effect_defs Let_def appliedListing_set_def
        commit_SET_APPLIED_LISTING_def)
  show ?thesis using a b c d e spread2_copy by blast
qed

text \<open>
  The router of the example configuration rejects every navigation: the search for
  \<^verbatim>\<open>{query: "shoes"}\<close> resolves all the same, with the router asked first; with
  \<^verbatim>\<open>preventRouteChange: true\<close> only the search method is called.
\<close>

theorem search_success_witness:
  "searchMethod exampleConfig (merge3 (searchDefaults exampleConfig) [(''query'', JStr ''shoes'')])
     = Inr exampleResult
   \<and> snd (search exampleConfig [(''query'', JStr ''shoes'')] None freshState) = Inr ()
   \<and> getCurrentListing exampleConfig
       (fst (search exampleConfig [(''query'', JStr ''shoes'')] None freshState)) = exampleResult
   \<and> trace (fst (search exampleConfig [(''query'', JStr ''shoes'')] None freshState))
     = [RouterReplace [(''query'', JStr ''shoes'')],
        SearchCall [(''limit'', JNum 10), (''query'', JStr ''shoes'')]]
   \<and> trace (fst (search exampleConfig [(''query'', JStr ''shoes'')]
                   (Some \<lparr>preventRouteChange = Some True\<rparr>) freshState))
     = [SearchCall [(''limit'', JNum 10), (''query'', JStr ''shoes'')]]"
proof -
  have r: "searchMethod exampleConfig
             (merge3 (searchDefaults exampleConfig) [(''query'', JStr ''shoes'')])
           = Inr exampleResult"
    by (simp add: exampleConfig_def)
  have m: "merge3 (searchDefaults exampleConfig) [(''query'', JStr ''shoes'')]
           = [(''limit'', JNum 10), (''query'', JStr ''shoes'')]"
    by (simp add: exampleConfig_def merge3_def)
  have c: "spread2 [] [(''query'', JStr ''shoes'')] = [(''query'', JStr ''shoes'')]"
    by (simp add: spread2_def)
  have t: "trace (freshState :: string state) = []"
    by (simp add: freshState_def)
  show ?thesis
    using r search_success [OF r, of None freshState]
      search_success [OF r, of "Some \<lparr>preventRouteChange = Some True\<rparr>" freshState]
    unfolding m c t by simp
qed

text \<open>
  C4 (rejection). When the search method rejects the request with \<open>e\<close>, then
  \<^verbatim>\<open>initSearch\<close> and \<^verbatim>\<open>search\<close> reject with the same \<open>e\<close>, \<^verbatim>\<open>loading\<close> is false
  afterwards, the stored initial and applied listings are those of before, and the search
  method was called once. The same holds for \<^verbatim>\<open>loadMore\<close> with \<^verbatim>\<open>loadingMore\<close>.
\<close>

theorem rejection_propagates:
  "(searchMethod cfg (merge3 (searchDefaults cfg) criteria) = Inl e \<longrightarrow>
      snd (initSearch cfg criteria s) = Inl e
      \<and> loading (fst (initSearch cfg criteria s)) = False
      \<and> initialListings (fst (initSearch cfg criteria s)) = initialListings s
      \<and> appliedListings (fst (initSearch cfg criteria s)) = appliedListings s
      \<and> trace (fst (initSearch cfg criteria s)) =
          trace s @ [SearchCall (merge3 (searchDefaults cfg) criteria)]
      \<and> snd (search cfg criteria options s) = Inl e
      \<and> loading (fst (search cfg criteria options s)) = False
      \<and> initialListings (fst (search cfg criteria options s)) = initialListings s
      \<and> appliedListings (fst (search cfg criteria options s)) = appliedListings s
      \<and> length (filter (\<lambda>c. \<exists>q. c = SearchCall q) (trace (fst (search cfg criteria options s))))
          = Suc (length (filter (\<lambda>c. \<exists>q. c = SearchCall q) (trace s))))
   \<and> (searchMethod cfg (merge3 (searchDefaults cfg)
          (set_prop ''p'' (JNum (getCurrentPage cfg s + 1)) (spread2 [] (query s)))) = Inl e \<longrightarrow>
      snd (loadMore cfg s) = Inl e
      \<and> loadingMore (fst (loadMore cfg s)) = False
      \<and> initialListings (fst (loadMore cfg s)) = initialListings s
      \<and> appliedListings (fst (loadMore cfg s)) = appliedListings s
      \<and> trace (fst (loadMore cfg s)) =
          trace s @ [SearchCall (merge3 (searchDefaults cfg)
             (set_prop ''p'' (JNum (getCurrentPage cfg s + 1)) (spread2 [] (query s))))])"
  by (simp add: initSearch_def search_def loadMore_def effect_defs Let_def)

text \<open>A search method that rejects every request with \<^verbatim>\<open>"503"\<close>.\<close>

theorem rejection_propagates_witness:
  "searchMethod (exampleConfig\<lparr>searchMethod := (\<lambda>criteria. Inl (Rejected (JStr ''503'')))\<rparr>)
     (merge3 (searchDefaults (exampleConfig\<lparr>searchMethod := (\<lambda>criteria. Inl (Rejected (JStr ''503'')))\<rparr>))
        [(''query'', JStr ''shoes'')])
     = Inl (Rejected (JStr ''503''))
   \<and> snd (initSearch (exampleConfig\<lparr>searchMethod := (\<lambda>criteria. Inl (Rejected (JStr ''503'')))\<rparr>)
            [(''query'', JStr ''shoes'')] (freshState\<lparr>loading := True\<rparr>))
     = Inl (Rejected (JStr ''503''))
   \<and> loading (fst (search (exampleConfig\<lparr>searchMethod := (\<lambda>criteria. Inl (Rejected (JStr ''503'')))\<rparr>)
            [(''query'', JStr ''shoes'')] None (freshState\<lparr>loading := True\<rparr>)))
     = False
   \<and> snd (loadMore (exampleConfig\<lparr>searchMethod := (\<lambda>criteria. Inl (Rejected (JStr ''503'')))\<rparr>)
            (freshState\<lparr>loading := True\<rparr>))
     = Inl (Rejected (JStr ''503''))"
proof -
  have r: "searchMethod (exampleConfig\<lparr>searchMethod := (\<lambda>criteria. Inl (Rejected (JStr ''503'')))\<rparr>) q
           = Inl (Rejected (JStr ''503''))" for q
    by simp
  show ?thesis
    using r rejection_propagates
      [of "exampleConfig\<lparr>searchMethod := (\<lambda>criteria. Inl (Rejected (JStr ''503'')))\<rparr>"
          "[(''query'', JStr ''shoes'')]" "Rejected (JStr ''503'')"
          "freshState\<lparr>loading := True\<rparr>" None]
    by simp
qed

section \<open>Current filters\<close>

lemma get_prop_truthy_key:
  assumes "truthy (get_prop cf k)"
  shows "k \<in> set (object_keys cf)"
proof (cases "map_of cf k")
  case None
  then show ?thesis using assms by (simp add: get_prop_def)
next
  case (Some v)
  then have "k \<in> dom (map_of cf)" by blast
  then show ?thesis by (simp add: object_keys_def dom_map_of_conv_image_fst)
qed

lemma filter_step_other:
  assumes "k \<noteq> ''navigationId''" "k \<noteq> ''price''" "k \<noteq> ''p''"
    "k \<noteq> ''min-price''" "k \<noteq> ''max-price''"
  shows "map_of (filter_step cf x acc) k =
     (if x = k \<and> truthy (get_prop cf k) then Some (get_prop cf k) else map_of acc k)"
  using assms by (auto simp: filter_step_def Let_def map_of_set_prop)

lemma filter_step_dropped:
  assumes "k = ''navigationId'' \<or> k = ''price'' \<or> k = ''p''"
  shows "map_of (filter_step cf x acc) k = map_of acc k"
  using assms by (auto simp: filter_step_def Let_def map_of_set_prop)

lemma filter_step_min:
  "map_of (filter_step cf x acc) ''min-price'' =
     (if x = ''price'' \<and> truthy (get_prop cf ''price'')
           \<and> truthy (member (get_prop cf ''price'') ''min'')
      then Some (member (get_prop cf ''price'') ''min'')
      else if x = ''min-price'' \<and> truthy (get_prop cf ''min-price'')
      then Some (get_prop cf ''min-price'')
      else map_of acc ''min-price'')"
  by (auto simp: filter_step_def Let_def map_of_set_prop)

lemma filter_step_max:
  "map_of (filter_step cf x acc) ''max-price'' =
     (if x = ''price'' \<and> truthy (get_prop cf ''price'')
           \<and> truthy (member (get_prop cf ''price'') ''max'')
      then Some (member (get_prop cf ''price'') ''max'')
      else if x = ''max-price'' \<and> truthy (get_prop cf ''max-price'')
      then Some (get_prop cf ''max-price'')
      else map_of acc ''max-price'')"
  by (auto simp: filter_step_def Let_def map_of_set_prop)

lemma fold_filter_step_other:
  assumes "k \<noteq> ''navigationId''" "k \<noteq> ''price''" "k \<noteq> ''p''"
    "k \<noteq> ''min-price''" "k \<noteq> ''max-price''"
  shows "map_of (fold (filter_step cf) ks acc) k =
     (if k \<in> set ks \<and> truthy (get_prop cf k) then Some (get_prop cf k) else map_of acc k)"
proof (induction ks arbitrary: acc)
  case Nil
  show ?case by simp
next
  case (Cons x ks)
  show ?case using Cons.IH [of "filter_step cf x acc"] filter_step_other [OF assms, of cf x acc]
    by auto
qed

lemma fold_filter_step_dropped:
  assumes "k = ''navigationId'' \<or> k = ''price'' \<or> k = ''p''"
  shows "map_of (fold (filter_step cf) ks acc) k = map_of acc k"
proof (induction ks arbitrary: acc)
  case Nil
  show ?case by simp
next
  case (Cons x ks)
  show ?case using Cons.IH [of "filter_step cf x acc"] filter_step_dropped [OF assms, of cf x acc]
    by simp
qed

lemma fold_filter_step_min_translated:
  assumes "\<not> truthy (get_prop cf ''min-price'')"
  shows "map_of (fold (filter_step cf) ks acc) ''min-price'' =
     (if ''price'' \<in> set ks \<and> truthy (get_prop cf ''price'')
           \<and> truthy (member (get_prop cf ''price'') ''min'')
      then Some (member (get_prop cf ''price'') ''min'')
      else map_of acc ''min-price'')"
proof (induction ks arbitrary: acc)
  case Nil
  show ?case by simp
next
  case (Cons x ks)
  show ?case using Cons.IH [of "filter_step cf x acc"] filter_step_min [of cf x acc] assms
    by auto
qed

lemma fold_filter_step_max_translated:
  assumes "\<not> truthy (get_prop cf ''max-price'')"
  shows "map_of (fold (filter_step cf) ks acc) ''max-price'' =
     (if ''price'' \<in> set ks \<and> truthy (get_prop cf ''price'')
           \<and> truthy (member (get_prop cf ''price'') ''max'')
      then Some (member (get_prop cf ''price'') ''max'')
      else map_of acc ''max-price'')"
proof (induction ks arbitrary: acc)
  case Nil
  show ?case by simp
next
  case (Cons x ks)
  show ?case using Cons.IH [of "filter_step cf x acc"] filter_step_max [of cf x acc] assms
    by auto
qed

lemma fold_filter_step_min_passed:
  assumes "\<not> (truthy (get_prop cf ''price'') \<and> truthy (member (get_prop cf ''price'') ''min''))"
  shows "map_of (fold (filter_step cf) ks acc) ''min-price'' =
     (if ''min-price'' \<in> set ks \<and> truthy (get_prop cf ''min-price'')
      then Some (get_prop cf ''min-price'')
      else map_of acc ''min-price'')"
proof (induction ks arbitrary: acc)
  case Nil
  show ?case by simp
next
  case (Cons x ks)
  show ?case using Cons.IH [of "filter_step cf x acc"] filter_step_min [of cf x acc] assms
    by auto
qed

lemma fold_filter_step_max_passed:
  assumes "\<not> (truthy (get_prop cf ''price'') \<and> truthy (member (get_prop cf ''price'') ''max''))"
  shows "map_of (fold (filter_step cf) ks acc) ''max-price'' =
     (if ''max-price'' \<in> set ks \<and> truthy (get_prop cf ''max-price'')
      then Some (get_prop cf ''max-price'')
      else map_of acc ''max-price'')"
proof (induction ks arbitrary: acc)
  case Nil
  show ?case by simp
next
  case (Cons x ks)
  show ?case using Cons.IH [of "filter_step cf x acc"] filter_step_max [of cf x acc] assms
    by auto
qed

lemma fold_filter_step_min_last:
  assumes "truthy (get_prop cf ''price'')" "truthy (member (get_prop cf ''price'') ''min'')"
    "truthy (get_prop cf ''min-price'')"
  shows "map_of (fold (filter_step cf) ks acc) ''min-price'' =
     (if filter (\<lambda>k. k = ''price'' \<or> k = ''min-price'') ks = [] then map_of acc ''min-price''
      else if last (filter (\<lambda>k. k = ''price'' \<or> k = ''min-price'') ks) = ''price''
      then Some (member (get_prop cf ''price'') ''min'')
      else Some (get_prop cf ''min-price''))"
proof (induction ks arbitrary: acc)
  case Nil
  show ?case by simp
next
  case (Cons x ks)
  show ?case using Cons.IH [of "filter_step cf x acc"] filter_step_min [of cf x acc] assms
    by auto
qed

lemma fold_filter_step_max_last:
  assumes "truthy (get_prop cf ''price'')" "truthy (member (get_prop cf ''price'') ''max'')"
    "truthy (get_prop cf ''max-price'')"
  shows "map_of (fold (filter_step cf) ks acc) ''max-price'' =
     (if filter (\<lambda>k. k = ''price'' \<or> k = ''max-price'') ks = [] then map_of acc ''max-price''
      else if last (filter (\<lambda>k. k = ''price'' \<or> k = ''max-price'') ks) = ''price''
      then Some (member (get_prop cf ''price'') ''max'')
      else Some (get_prop cf ''max-price''))"
proof (induction ks arbitrary: acc)
  case Nil
  show ?case by simp
next
  case (Cons x ks)
  show ?case using Cons.IH [of "filter_step cf x acc"] filter_step_max [of cf x acc] assms
    by auto
qed

text \<open>The keys of \<^verbatim>\<open>{...a, ...b}\<close>: those of \<open>a\<close> in their order, then the new ones.\<close>

lemma keys_spread2_extend:
  "\<exists>rest. map fst (spread2 a b) = map fst a @ rest \<and> set rest \<inter> set (map fst a) = {}"
  unfolding spread2_def
proof (induction b arbitrary: a)
  case Nil
  show ?case by simp
next
  case (Cons kv b)
  obtain rest where r: "map fst (fold (\<lambda>kv. set_prop (fst kv) (snd kv)) b (set_prop (fst kv) (snd kv) a))
      = map fst (set_prop (fst kv) (snd kv) a) @ rest"
    and d: "set rest \<inter> set (map fst (set_prop (fst kv) (snd kv) a)) = {}"
    using Cons.IH [of "set_prop (fst kv) (snd kv) a"] by blast
  show ?case
  proof (cases "fst kv \<in> set (map fst a)")
    case True
    then show ?thesis using r d by (auto simp: map_fst_set_prop)
  next
    case False
    then have "map fst (fold (\<lambda>kv. set_prop (fst kv) (snd kv)) (kv # b) a)
        = map fst a @ (fst kv # rest)"
      using r by (simp add: map_fst_set_prop)
    moreover have "set (fst kv # rest) \<inter> set (map fst a) = {}"
      using False d by (auto simp: map_fst_set_prop)
    ultimately show ?thesis by blast
  qed
qed

lemma set_keys_spread2: "set (map fst (spread2 a b)) = set (map fst a) \<union> set (map fst b)"
  unfolding spread2_def
proof (induction b arbitrary: a)
  case Nil
  show ?case by simp
next
  case (Cons kv b)
  have "set (map fst (fold (\<lambda>kv. set_prop (fst kv) (snd kv)) b (set_prop (fst kv) (snd kv) a)))
        = set (map fst (set_prop (fst kv) (snd kv) a)) \<union> set (map fst b)"
    by (rule Cons.IH)
  also have "\<dots> = insert (fst kv) (set (map fst a)) \<union> set (map fst b)"
    by (simp only: keys_set_prop)
  finally show ?case by simp
qed

lemma last_filter_later:
  assumes "ks = xs @ rest" "set rest \<inter> set xs = {}" "p \<in> set xs" "m \<notin> set xs" "m \<in> set ks"
  shows "last (filter (\<lambda>k. k = p \<or> k = m) ks) = m"
proof -
  have mr: "m \<in> set rest" using assms by auto
  have pr: "p \<notin> set rest" using assms by auto
  have ne: "filter (\<lambda>k. k = p \<or> k = m) rest \<noteq> []"
    using mr by (auto simp: filter_empty_conv)
  have "last (filter (\<lambda>k. k = p \<or> k = m) rest) \<in> set (filter (\<lambda>k. k = p \<or> k = m) rest)"
    using ne by (rule last_in_set)
  then have "last (filter (\<lambda>k. k = p \<or> k = m) rest) = m" using pr by auto
  then show ?thesis using ne assms(1) by simp
qed

lemma later_key_of_query:
  assumes "p \<in> set (map fst lf)" "m \<notin> set (map fst lf)"
    "m \<in> set (map fst (spread2 (spread2 [] lf) q))"
  shows "last (filter (\<lambda>k. k = p \<or> k = m) (map fst (spread2 (spread2 [] lf) q))) = m"
proof -
  obtain rest where r: "map fst (spread2 (spread2 [] lf) q) = map fst (spread2 [] lf) @ rest"
    and d: "set rest \<inter> set (map fst (spread2 [] lf)) = {}"
    using keys_spread2_extend [of "spread2 [] lf" q] by blast
  have s: "set (map fst (spread2 [] lf)) = set (map fst lf)"
    using set_keys_spread2 [of "[]" lf] by simp
  show ?thesis
    using last_filter_later [OF r d, of p m] assms s by simp
qed

lemma get_prop_mergedFilters:
  assumes "distinct (map fst (query s))"
    and "\<forall>f. currentFilters (getCurrentListing cfg s) = Some f \<longrightarrow> distinct (map fst f)"
  shows "get_prop (mergedFilters cfg s) k =
     (case map_of (query s) k of
        Some v \<Rightarrow> v
      | None \<Rightarrow> (case currentFilters (getCurrentListing cfg s) of
                   None \<Rightarrow> JUndefined
                 | Some f \<Rightarrow> get_prop f k))"
proof -
  have d: "distinct (map fst (case currentFilters (getCurrentListing cfg s) of
                                None \<Rightarrow> [] | Some f \<Rightarrow> f))"
    using assms(2) by (simp split: option.split)
  show ?thesis
    unfolding mergedFilters_def get_prop_def
    by (simp add: map_of_spread2 [OF assms(1)] map_of_spread2 [OF d] map_add_def
        split: option.split)
qed

text \<open>
  C7 (current filters), as the code has it. The merged filters are the listing's
  \<^verbatim>\<open>currentFilters\<close> overridden by the navigation query. The current filters never
  hold the keys \<^verbatim>\<open>navigationId\<close>, \<^verbatim>\<open>p\<close> or \<^verbatim>\<open>price\<close>. A key other than
  \<^verbatim>\<open>min-price\<close> and \<^verbatim>\<open>max-price\<close> is left out when its merged value is falsy, and
  carries its merged value when that is truthy and the key is none of the five. The key
  \<^verbatim>\<open>min-price\<close> holds the truthy \<^verbatim>\<open>min\<close> of a truthy merged \<^verbatim>\<open>price\<close> when the
  merged filters have no truthy \<^verbatim>\<open>min-price\<close> of their own, and the merged
  \<^verbatim>\<open>min-price\<close> when the price has no truthy \<^verbatim>\<open>min\<close>. When both are truthy, the
  later of the keys \<^verbatim>\<open>price\<close> and \<^verbatim>\<open>min-price\<close> in the merged filters decides: the
  key holds the price's \<^verbatim>\<open>min\<close> when \<^verbatim>\<open>price\<close> is the later one, and the merged
  \<^verbatim>\<open>min-price\<close> otherwise. So where the listing's filters hold \<^verbatim>\<open>price\<close> and no
  \<^verbatim>\<open>min-price\<close>, a truthy \<^verbatim>\<open>min-price\<close> (it is the query's) is the value of the key.
  Likewise \<^verbatim>\<open>max-price\<close> with \<^verbatim>\<open>max\<close>.
\<close>

theorem getCurrentFilters_contents:
  "map_of (getCurrentFilters cfg s) ''navigationId'' = None
   \<and> map_of (getCurrentFilters cfg s) ''p'' = None
   \<and> map_of (getCurrentFilters cfg s) ''price'' = None
   \<and> (k \<noteq> ''min-price'' \<and> k \<noteq> ''max-price'' \<and> \<not> truthy (get_prop (mergedFilters cfg s) k) \<longrightarrow>
        map_of (getCurrentFilters cfg s) k = None)
   \<and> (k \<noteq> ''navigationId'' \<and> k \<noteq> ''p'' \<and> k \<noteq> ''price'' \<and> k \<noteq> ''min-price''
        \<and> k \<noteq> ''max-price'' \<and> truthy (get_prop (mergedFilters cfg s) k) \<longrightarrow>
        map_of (getCurrentFilters cfg s) k = Some (get_prop (mergedFilters cfg s) k))
   \<and> (\<not> truthy (get_prop (mergedFilters cfg s) ''min-price'') \<longrightarrow>
        map_of (getCurrentFilters cfg s) ''min-price'' =
          (if truthy (get_prop (mergedFilters cfg s) ''price'')
                \<and> truthy (member (get_prop (mergedFilters cfg s) ''price'') ''min'')
           then Some (member (get_prop (mergedFilters cfg s) ''price'') ''min'')
           else None))
   \<and> (\<not> truthy (get_prop (mergedFilters cfg s) ''max-price'') \<longrightarrow>
        map_of (getCurrentFilters cfg s) ''max-price'' =
          (if truthy (get_prop (mergedFilters cfg s) ''price'')
                \<and> truthy (member (get_prop (mergedFilters cfg s) ''price'') ''max'')
           then Some (member (get_prop (mergedFilters cfg s) ''price'') ''max'')
           else None))
   \<and> (\<not> (truthy (get_prop (mergedFilters cfg s) ''price'')
           \<and> truthy (member (get_prop (mergedFilters cfg s) ''price'') ''min'')) \<longrightarrow>
        map_of (getCurrentFilters cfg s) ''min-price'' =
          (if truthy (get_prop (mergedFilters cfg s) ''min-price'')
           then Some (get_prop (mergedFilters cfg s) ''min-price'') else None))
   \<and> (\<not> (truthy (get_prop (mergedFilters cfg s) ''price'')
           \<and> truthy (member (get_prop (mergedFilters cfg s) ''price'') ''max'')) \<longrightarrow>
        map_of (getCurrentFilters cfg s) ''max-price'' =
          (if truthy (get_prop (mergedFilters cfg s) ''max-price'')
           then Some (get_prop (mergedFilters cfg s) ''max-price'') else None))
   \<and> (truthy (get_prop (mergedFilters cfg s) ''price'')
        \<and> truthy (member (get_prop (mergedFilters cfg s) ''price'') ''min'')
        \<and> truthy (get_prop (mergedFilters cfg s) ''min-price'') \<longrightarrow>
        map_of (getCurrentFilters cfg s) ''min-price'' =
          Some (if last (filter (\<lambda>x. x = ''price'' \<or> x = ''min-price'')
                           (object_keys (mergedFilters cfg s))) = ''price''
                then member (get_prop (mergedFilters cfg s) ''price'') ''min''
                else get_prop (mergedFilters cfg s) ''min-price''))
   \<and> (''price'' \<in> set (object_keys (case currentFilters (getCurrentListing cfg s) of
                                        None \<Rightarrow> [] | Some f \<Rightarrow> f))
        \<and> ''min-price'' \<notin> set (object_keys (case currentFilters (getCurrentListing cfg s) of
                                                None \<Rightarrow> [] | Some f \<Rightarrow> f))
        \<and> truthy (get_prop (mergedFilters cfg s) ''min-price'') \<longrightarrow>
        map_of (getCurrentFilters cfg s) ''min-price'' =
          Some (get_prop (mergedFilters cfg s) ''min-price''))
   \<and> (truthy (get_prop (mergedFilters cfg s) ''price'')
        \<and> truthy (member (get_prop (mergedFilters cfg s) ''price'') ''max'')
        \<and> truthy (get_prop (mergedFilters cfg s) ''max-price'') \<longrightarrow>
        map_of (getCurrentFilters cfg s) ''max-price'' =
          Some (if last (filter (\<lambda>x. x = ''price'' \<or> x = ''max-price'')
                           (object_keys (mergedFilters cfg s))) = ''price''
                then member (get_prop (mergedFilters cfg s) ''price'') ''max''
                else get_prop (mergedFilters cfg s) ''max-price''))
   \<and> (''price'' \<in> set (object_keys (case currentFilters (getCurrentListing cfg s) of
                                        None \<Rightarrow> [] | Some f \<Rightarrow> f))
        \<and> ''max-price'' \<notin> set (object_keys (case currentFilters (getCurrentListing cfg s) of
                                                None \<Rightarrow> [] | Some f \<Rightarrow> f))
        \<and> truthy (get_prop (mergedFilters cfg s) ''max-price'') \<longrightarrow>
        map_of (getCurrentFilters cfg s) ''max-price'' =
          Some (get_prop (mergedFilters cfg s) ''max-price''))
   \<and> (distinct (map fst (query s))
        \<and> (\<forall>f. currentFilters (getCurrentListing cfg s) = Some f \<longrightarrow> distinct (map fst f)) \<longrightarrow>
        get_prop (mergedFilters cfg s) k =
          (case map_of (query s) k of
             Some v \<Rightarrow> v
           | None \<Rightarrow> (case currentFilters (getCurrentListing cfg s) of
                        None \<Rightarrow> JUndefined
                      | Some f \<Rightarrow> get_prop f k)))"
proof -
  define cf where "cf = mergedFilters cfg s"
  have r: "getCurrentFilters cfg s = fold (filter_step cf) (object_keys cf) []"
    by (simp add: getCurrentFilters_def cf_def Let_def)
  note key = get_prop_truthy_key [of cf]
  have a: "map_of (getCurrentFilters cfg s) ''navigationId'' = None"
    unfolding r by (simp add: fold_filter_step_dropped)
  have b: "map_of (getCurrentFilters cfg s) ''p'' = None"
    unfolding r by (simp add: fold_filter_step_dropped)
  have c: "map_of (getCurrentFilters cfg s) ''price'' = None"
    unfolding r by (simp add: fold_filter_step_dropped)
  have d: "map_of (getCurrentFilters cfg s) k = None"
    if "k \<noteq> ''min-price''" "k \<noteq> ''max-price''" "\<not> truthy (get_prop cf k)"
  proof (cases "k = ''navigationId'' \<or> k = ''price'' \<or> k = ''p''")
    case True
    then show ?thesis unfolding r by (simp add: fold_filter_step_dropped)
  next
    case False
    then show ?thesis unfolding r using that by (simp add: fold_filter_step_other)
  qed
  have e: "map_of (getCurrentFilters cfg s) k = Some (get_prop cf k)"
    if "k \<noteq> ''navigationId''" "k \<noteq> ''p''" "k \<noteq> ''price''" "k \<noteq> ''min-price''"
      "k \<noteq> ''max-price''" "truthy (get_prop cf k)"
    unfolding r using that key [of k] by (simp add: fold_filter_step_other)
  have f: "map_of (getCurrentFilters cfg s) ''min-price'' =
          (if truthy (get_prop cf ''price'') \<and> truthy (member (get_prop cf ''price'') ''min'')
           then Some (member (get_prop cf ''price'') ''min'') else None)"
    if "\<not> truthy (get_prop cf ''min-price'')"
    unfolding r using that key [of "''price''"]
    by (simp add: fold_filter_step_min_translated)
  have g: "map_of (getCurrentFilters cfg s) ''max-price'' =
          (if truthy (get_prop cf ''price'') \<and> truthy (member (get_prop cf ''price'') ''max'')
           then Some (member (get_prop cf ''price'') ''max'') else None)"
    if "\<not> truthy (get_prop cf ''max-price'')"
    unfolding r using that key [of "''price''"]
    by (simp add: fold_filter_step_max_translated)
  have h: "map_of (getCurrentFilters cfg s) ''min-price'' =
          (if truthy (get_prop cf ''min-price'') then Some (get_prop cf ''min-price'') else None)"
    if "\<not> (truthy (get_prop cf ''price'') \<and> truthy (member (get_prop cf ''price'') ''min''))"
    unfolding r using that key [of "''min-price''"]
    by (simp add: fold_filter_step_min_passed)
  have i: "map_of (getCurrentFilters cfg s) ''max-price'' =
          (if truthy (get_prop cf ''max-price'') then Some (get_prop cf ''max-price'') else None)"
    if "\<not> (truthy (get_prop cf ''price'') \<and> truthy (member (get_prop cf ''price'') ''max''))"
    unfolding r using that key [of "''max-price''"]
    by (simp add: fold_filter_step_max_passed)
  define lf where
    "lf = (case currentFilters (getCurrentListing cfg s) of None \<Rightarrow> [] | Some f \<Rightarrow> f)"
  have m1: "map_of (getCurrentFilters cfg s) ''min-price'' =
          Some (if last (filter (\<lambda>x. x = ''price'' \<or> x = ''min-price'') (object_keys cf)) = ''price''
                then member (get_prop cf ''price'') ''min'' else get_prop cf ''min-price'')"
    if "truthy (get_prop cf ''price'')" "truthy (member (get_prop cf ''price'') ''min'')"
      "truthy (get_prop cf ''min-price'')"
  proof -
    have "filter (\<lambda>x. x = ''price'' \<or> x = ''min-price'') (object_keys cf) \<noteq> []"
      using key [OF that(1)] by (auto simp: filter_empty_conv)
    then show ?thesis
      unfolding r using fold_filter_step_min_last [OF that, of "object_keys cf" "[]"] by simp
  qed
  have m3: "map_of (getCurrentFilters cfg s) ''min-price'' = Some (get_prop cf ''min-price'')"
    if "''price'' \<in> set (object_keys lf)" "''min-price'' \<notin> set (object_keys lf)"
      "truthy (get_prop cf ''min-price'')"
  proof (cases "truthy (get_prop cf ''price'') \<and> truthy (member (get_prop cf ''price'') ''min'')")
    case True
    have "last (filter (\<lambda>x. x = ''price'' \<or> x = ''min-price'') (object_keys cf)) = ''min-price''"
      using later_key_of_query [of "''price''" lf "''min-price''" "query s"] that key [OF that(3)]
      by (simp add: object_keys_def cf_def mergedFilters_def lf_def)
    then show ?thesis using m1 True that(3) by simp
  next
    case False
    then show ?thesis
      unfolding r
      using that(3) key [OF that(3)] fold_filter_step_min_passed [of cf "object_keys cf" "[]"]
      by simp
  qed
  have x1: "map_of (getCurrentFilters cfg s) ''max-price'' =
          Some (if last (filter (\<lambda>x. x = ''price'' \<or> x = ''max-price'') (object_keys cf)) = ''price''
                then member (get_prop cf ''price'') ''max'' else get_prop cf ''max-price'')"
    if "truthy (get_prop cf ''price'')" "truthy (member (get_prop cf ''price'') ''max'')"
      "truthy (get_prop cf ''max-price'')"
  proof -
    have "filter (\<lambda>x. x = ''price'' \<or> x = ''max-price'') (object_keys cf) \<noteq> []"
      using key [OF that(1)] by (auto simp: filter_empty_conv)
    then show ?thesis
      unfolding r using fold_filter_step_max_last [OF that, of "object_keys cf" "[]"] by simp
  qed
  have x3: "map_of (getCurrentFilters cfg s) ''max-price'' = Some (get_prop cf ''max-price'')"
    if "''price'' \<in> set (object_keys lf)" "''max-price'' \<notin> set (object_keys lf)"
      "truthy (get_prop cf ''max-price'')"
  proof (cases "truthy (get_prop cf ''price'') \<and> truthy (member (get_prop cf ''price'') ''max'')")
    case True
    have "last (filter (\<lambda>x. x = ''price'' \<or> x = ''max-price'') (object_keys cf)) = ''max-price''"
      using later_key_of_query [of "''price''" lf "''max-price''" "query s"] that key [OF that(3)]
      by (simp add: object_keys_def cf_def mergedFilters_def lf_def)
    then show ?thesis using x1 True that(3) by simp
  next
    case False
    then show ?thesis
      unfolding r
      using that(3) key [OF that(3)] fold_filter_step_max_passed [of cf "object_keys cf" "[]"]
      by simp
  qed
  note j = get_prop_mergedFilters [of s cfg k]
  show ?thesis
    unfolding cf_def [symmetric] lf_def [symmetric]
    apply (intro conjI impI)
    subgoal by (rule a)
    subgoal by (rule b)
    subgoal by (rule c)
    subgoal using d by blast
    subgoal using e by blast
    subgoal using f by blast
    subgoal using g by blast
    subgoal using h by blast
    subgoal using i by blast
    subgoal using m1 by blast
    subgoal using m3 by blast
    subgoal using x1 by blast
    subgoal using x3 by blast
    subgoal using j [folded cf_def] by blast
    done
qed

text \<open>
  A listing with the filters \<^verbatim>\<open>{price: {min: 5, max: 20}, manufacturer: "y"}\<close> and the
  query \<^verbatim>\<open>{navigationId: "abc", p: 2, manufacturer: "x", search: ""}\<close> give the current
  filters \<^verbatim>\<open>{"min-price": 5, "max-price": 20, manufacturer: "x"}\<close>. A listing with
  the filters \<^verbatim>\<open>{price: {min: 5, max: 20}}\<close> and the query \<^verbatim>\<open>{"min-price": 7}\<close>
  give \<^verbatim>\<open>{"min-price": 7, "max-price": 20}\<close>: the query's key is the later one.
\<close>

theorem getCurrentFilters_contents_witness:
  "truthy (get_prop (mergedFilters exampleConfig
      (freshState\<lparr>query := [(''navigationId'', JStr ''abc''), (''p'', JNum 2),
                             (''manufacturer'', JStr ''x''), (''search'', JStr '''')],
         appliedListings := (\<lambda>key. Stored (exampleResult\<lparr>currentFilters :=
            Some [(''price'', JObj [(''min'', JNum 5), (''max'', JNum 20)]),
                  (''manufacturer'', JStr ''y'')]\<rparr>))\<rparr>)) ''manufacturer'')
   \<and> map_of (getCurrentFilters exampleConfig
      (freshState\<lparr>query := [(''navigationId'', JStr ''abc''), (''p'', JNum 2),
                             (''manufacturer'', JStr ''x''), (''search'', JStr '''')],
         appliedListings := (\<lambda>key. Stored (exampleResult\<lparr>currentFilters :=
            Some [(''price'', JObj [(''min'', JNum 5), (''max'', JNum 20)]),
                  (''manufacturer'', JStr ''y'')]\<rparr>))\<rparr>)) ''manufacturer''
     = Some (JStr ''x'')
   \<and> getCurrentFilters exampleConfig
      (freshState\<lparr>query := [(''navigationId'', JStr ''abc''), (''p'', JNum 2),
                             (''manufacturer'', JStr ''x''), (''search'', JStr '''')],
         appliedListings := (\<lambda>key. Stored (exampleResult\<lparr>currentFilters :=
            Some [(''price'', JObj [(''min'', JNum 5), (''max'', JNum 20)]),
                  (''manufacturer'', JStr ''y'')]\<rparr>))\<rparr>)
     = [(''min-price'', JNum 5), (''max-price'', JNum 20), (''manufacturer'', JStr ''x'')]
   \<and> truthy (get_prop (mergedFilters exampleConfig
      (freshState\<lparr>query := [(''min-price'', JNum 7)],
         appliedListings := (\<lambda>key. Stored (exampleResult\<lparr>currentFilters :=
            Some [(''price'', JObj [(''min'', JNum 5), (''max'', JNum 20)])]\<rparr>))\<rparr>)) ''min-price'')
   \<and> getCurrentFilters exampleConfig
      (freshState\<lparr>query := [(''min-price'', JNum 7)],
         appliedListings := (\<lambda>key. Stored (exampleResult\<lparr>currentFilters :=
            Some [(''price'', JObj [(''min'', JNum 5), (''max'', JNum 20)])]\<rparr>))\<rparr>)
     = [(''min-price'', JNum 7), (''max-price'', JNum 20)]"
  using getCurrentFilters_contents [of exampleConfig
      "freshState\<lparr>query := [(''min-price'', JNum 7)],
         appliedListings := (\<lambda>key. Stored (exampleResult\<lparr>currentFilters :=
            Some [(''price'', JObj [(''min'', JNum 5), (''max'', JNum 20)])]\<rparr>))\<rparr>"
      "''min-price''"]
    getCurrentFilters_contents [of exampleConfig
      "freshState\<lparr>query := [(''navigationId'', JStr ''abc''), (''p'', JNum 2),
                             (''manufacturer'', JStr ''x''), (''search'', JStr '''')],
         appliedListings := (\<lambda>key. Stored (exampleResult\<lparr>currentFilters :=
            Some [(''price'', JObj [(''min'', JNum 5), (''max'', JNum 20)]),
                  (''manufacturer'', JStr ''y'')]\<rparr>))\<rparr>"
      "''manufacturer''"]
  by (simp add: eval_defs example_defs)

text \<open>
  C7 as the specification states it fails where a key \<^verbatim>\<open>min-price\<close> or
  \<^verbatim>\<open>max-price\<close> meets a price object. The listing's filters are
  \<^verbatim>\<open>{"max-price": 3, price: {min: 5, max: 9}}\<close>, the query is \<^verbatim>\<open>{"min-price": ""}\<close>.
  The merged value of \<^verbatim>\<open>min-price\<close> is falsy, yet the current filters hold the key; the
  merged value of \<^verbatim>\<open>max-price\<close> is 3, yet the current filters hold 9.
\<close>

theorem getCurrentFilters_price_counterexample:
  "get_prop (mergedFilters exampleConfig
      (freshState\<lparr>query := [(''min-price'', JStr '''')],
         appliedListings := (\<lambda>key. Stored (exampleResult\<lparr>currentFilters :=
            Some [(''max-price'', JNum 3),
                  (''price'', JObj [(''min'', JNum 5), (''max'', JNum 9)])]\<rparr>))\<rparr>)) ''min-price''
     = JStr ''''
   \<and> \<not> truthy (JStr '''')
   \<and> get_prop (mergedFilters exampleConfig
      (freshState\<lparr>query := [(''min-price'', JStr '''')],
         appliedListings := (\<lambda>key. Stored (exampleResult\<lparr>currentFilters :=
            Some [(''max-price'', JNum 3),
                  (''price'', JObj [(''min'', JNum 5), (''max'', JNum 9)])]\<rparr>))\<rparr>)) ''max-price''
     = JNum 3
   \<and> getCurrentFilters exampleConfig
      (freshState\<lparr>query := [(''min-price'', JStr '''')],
         appliedListings := (\<lambda>key. Stored (exampleResult\<lparr>currentFilters :=
            Some [(''max-price'', JNum 3),
                  (''price'', JObj [(''min'', JNum 5), (''max'', JNum 9)])]\<rparr>))\<rparr>)
     = [(''max-price'', JNum 9), (''min-price'', JNum 5)]"
  by (simp add: eval_defs example_defs)

section \<open>Paging\<close>

text \<open>
  C9 (sorting and paging), as the code has it. \<^verbatim>\<open>changeCurrentSortingOrder(order)\<close> is
  \<^verbatim>\<open>search\<close> on a copy of the navigation query with \<^verbatim>\<open>order\<close> set, and
  \<^verbatim>\<open>changeCurrentPage(pageNumber)\<close> is \<^verbatim>\<open>search\<close> on a copy of the navigation query
  with \<^verbatim>\<open>p\<close> set to \<^verbatim>\<open>pageNumber\<close> when that is truthy and to 1 otherwise (so for
  undefined, null, 0 and the empty string). Neither passes options: the router is asked
  to replace the query, then the search method is called once.
\<close>

theorem changeCurrent_delegate:
  "changeCurrentSortingOrder cfg order s =
     search cfg (set_prop ''order'' order (spread2 [] (query s))) None s
   \<and> changeCurrentPage cfg pageNumber s =
     search cfg (set_prop ''p'' (if truthy pageNumber then pageNumber else JNum 1)
                   (spread2 [] (query s))) None s
   \<and> trace (fst (changeCurrentSortingOrder cfg order s)) =
       trace s @ [RouterReplace (set_prop ''order'' order (spread2 [] (query s))),
                  SearchCall (merge3 (searchDefaults cfg)
                                (set_prop ''order'' order (spread2 [] (query s))))]
   \<and> trace (fst (changeCurrentPage cfg pageNumber s)) =
       trace s @ [RouterReplace (set_prop ''p''
                     (if truthy pageNumber then pageNumber else JNum 1) (spread2 [] (query s))),
                  SearchCall (merge3 (searchDefaults cfg)
                                (set_prop ''p'' (if truthy pageNumber then pageNumber else JNum 1)
                                   (spread2 [] (query s))))]"
  by (simp add: changeCurrentSortingOrder_def changeCurrentPage_def js_or_def search_def
      effect_defs appliedListing_set_def commit_SET_APPLIED_LISTING_def Let_def
      spread2_copy distinct_set_prop distinct_copy split: sum.split)

text \<open>
  C9 as the specification states it sets \<^verbatim>\<open>p\<close> to \<^verbatim>\<open>pageNumber ?? 1\<close>, which is 0 for
  page number 0. \<^verbatim>\<open>changeCurrentPage(0)\<close> is not the search for \<^verbatim>\<open>{p: 0}\<close>: it asks
  the router and the search method for page 1.
\<close>

theorem changeCurrentPage_zero_counterexample:
  "changeCurrentPage exampleConfig (JNum 0) freshState
     \<noteq> search exampleConfig [(''p'', JNum 0)] None freshState
   \<and> trace (fst (changeCurrentPage exampleConfig (JNum 0) freshState)) =
       [RouterReplace [(''p'', JNum 1)], SearchCall [(''limit'', JNum 10), (''p'', JNum 1)]]"
  by (simp add: eval_defs example_defs)

text \<open>
  C8 (missing fields). The example result is applied and the search method returns
  \<^verbatim>\<open>{page: 2}\<close>, a result without elements: \<^verbatim>\<open>loadMore()\<close> rejects with a TypeError,
  since \<^verbatim>\<open>...result.elements\<close> has no fallback (the elements of the current listing,
  one line above in the source, have \<^verbatim>\<open>|| []\<close>).
\<close>

theorem loadMore_missing_elements:
  "snd (loadMore (exampleConfig\<lparr>searchMethod := (\<lambda>criteria. Inr (emptyListing\<lparr>page := Some 2\<rparr>))\<rparr>)
          (freshState\<lparr>appliedListings := (\<lambda>key. Stored exampleResult)\<rparr>))
     = Inl TypeError"
  by (simp add: eval_defs example_defs)

lemma ceil_div_pos:
  assumes "0 < (l::int)" "0 \<le> (t::int)"
  shows "0 \<le> - ((- t) div l)" "t \<le> - ((- t) div l) * l" "(- ((- t) div l) - 1) * l < t"
proof -
  define q where "q = (- t) div l"
  define r where "r = (- t) mod l"
  have eq: "- t = q * l + r" unfolding q_def r_def by simp
  have r0: "0 \<le> r" and r1: "r < l" unfolding r_def using assms(1) by simp_all
  have "q \<le> 0" unfolding q_def using assms by (simp add: div_nonpos_pos_le0)
  then show "0 \<le> - ((- t) div l)" unfolding q_def by simp
  have "t \<le> - q * l" using eq r0 by simp
  then show "t \<le> - ((- t) div l) * l" unfolding q_def .
  have "(- q - 1) * l = - (q * l) - l" by (simp add: algebra_simps)
  then have "(- q - 1) * l < t" using eq r1 by simp
  then show "(- ((- t) div l) - 1) * l < t" unfolding q_def .
qed

lemma getLimit_cases:
  "getLimit cfg s =
     (if num_or (limit (getCurrentListing cfg s)) 0 \<noteq> 0
      then JNum (num_or (limit (getCurrentListing cfg s)) 0)
      else if truthy (get_prop (searchDefaults cfg) ''limit'')
      then get_prop (searchDefaults cfg) ''limit''
      else JNum 10)"
  by (simp add: getLimit_def num_or_def js_or_def split: option.split)

text \<open>
  C10 (limit and page count), as the code has it. \<^verbatim>\<open>getLimit\<close> is always truthy, and is
  the literal 10 when the current listing's limit is missing or 0 and the configured
  default limit is falsy. When the configured default limit is a number or falsy,
  \<^verbatim>\<open>getLimit\<close> is a number other than 0, and \<^verbatim>\<open>getTotalPagesCount\<close> is the ceiling of
  total by limit: never a division by zero. When moreover the total and both limits are
  not negative, the limit is positive and \<^verbatim>\<open>getTotalPagesCount\<close> is the natural number
  \<open>n\<close> with \<open>(n - 1) * limit < total \<le> n * limit\<close>.
\<close>

theorem getLimit_truthy:
  "truthy (getLimit cfg s)
   \<and> (num_or (limit (getCurrentListing cfg s)) 0 = 0
        \<and> \<not> truthy (get_prop (searchDefaults cfg) ''limit'') \<longrightarrow> getLimit cfg s = JNum 10)
   \<and> ((\<exists>d. get_prop (searchDefaults cfg) ''limit'' = JNum d)
        \<or> \<not> truthy (get_prop (searchDefaults cfg) ''limit'') \<longrightarrow>
        (\<exists>l. getLimit cfg s = JNum l \<and> l \<noteq> 0
           \<and> getTotalPagesCount cfg s = Some (Fin (- ((- getTotal cfg s) div l)))))
   \<and> (((\<exists>d. get_prop (searchDefaults cfg) ''limit'' = JNum d \<and> 0 \<le> d)
         \<or> \<not> truthy (get_prop (searchDefaults cfg) ''limit''))
        \<and> 0 \<le> num_or (limit (getCurrentListing cfg s)) 0
        \<and> 0 \<le> num_or (total (getCurrentListing cfg s)) 0 \<longrightarrow>
        (\<exists>l n. getLimit cfg s = JNum l \<and> 0 < l \<and> getTotalPagesCount cfg s = Some (Fin n)
           \<and> 0 \<le> n \<and> getTotal cfg s \<le> n * l \<and> (n - 1) * l < getTotal cfg s))"
proof -
  have a: "truthy (getLimit cfg s)"
    by (simp add: getLimit_cases)
  have b: "getLimit cfg s = JNum 10"
    if "num_or (limit (getCurrentListing cfg s)) 0 = 0"
      "\<not> truthy (get_prop (searchDefaults cfg) ''limit'')"
    using that by (simp add: getLimit_cases)
  have c: "\<exists>l. getLimit cfg s = JNum l \<and> l \<noteq> 0
           \<and> getTotalPagesCount cfg s = Some (Fin (- ((- getTotal cfg s) div l)))"
    if "(\<exists>d. get_prop (searchDefaults cfg) ''limit'' = JNum d)
        \<or> \<not> truthy (get_prop (searchDefaults cfg) ''limit'')"
  proof -
    have "\<exists>l. getLimit cfg s = JNum l"
      using that by (auto simp: getLimit_cases)
    then obtain l where l: "getLimit cfg s = JNum l" by blast
    then have "l \<noteq> 0" using a by auto
    then show ?thesis using l by (simp add: getTotalPagesCount_def ceil_div_def)
  qed
  have d: "\<exists>l n. getLimit cfg s = JNum l \<and> 0 < l \<and> getTotalPagesCount cfg s = Some (Fin n)
           \<and> 0 \<le> n \<and> getTotal cfg s \<le> n * l \<and> (n - 1) * l < getTotal cfg s"
    if h: "(\<exists>d. get_prop (searchDefaults cfg) ''limit'' = JNum d \<and> 0 \<le> d)
         \<or> \<not> truthy (get_prop (searchDefaults cfg) ''limit'')"
      and nl: "0 \<le> num_or (limit (getCurrentListing cfg s)) 0"
      and nt: "0 \<le> num_or (total (getCurrentListing cfg s)) 0"
  proof -
    from h have "(\<exists>d. get_prop (searchDefaults cfg) ''limit'' = JNum d)
        \<or> \<not> truthy (get_prop (searchDefaults cfg) ''limit'')" by blast
    from c [OF this] obtain l where l: "getLimit cfg s = JNum l" "l \<noteq> 0"
      and p: "getTotalPagesCount cfg s = Some (Fin (- ((- getTotal cfg s) div l)))" by blast
    have "0 \<le> l" using l(1) h nl by (auto simp: getLimit_cases split: if_splits)
    then have pos: "0 < l" using l(2) by simp
    have t: "0 \<le> getTotal cfg s" using nt by (simp add: getTotal_def)
    show ?thesis using l(1) pos p ceil_div_pos [OF pos t] by blast
  qed
  show ?thesis using a b c d by blast
qed

text \<open>
  A listing of 25 elements without a limit, with the configured default limit 10 and
  without one: the limit is 10 and there are 3 pages.
\<close>

theorem getLimit_truthy_witness:
  "get_prop (searchDefaults exampleConfig) ''limit'' = JNum 10
   \<and> getLimit exampleConfig
       (freshState\<lparr>appliedListings :=
          (\<lambda>key. Stored (exampleResult\<lparr>total := Some 25, limit := None\<rparr>))\<rparr>) = JNum 10
   \<and> getTotalPagesCount exampleConfig
       (freshState\<lparr>appliedListings :=
          (\<lambda>key. Stored (exampleResult\<lparr>total := Some 25, limit := None\<rparr>))\<rparr>) = Some (Fin 3)
   \<and> \<not> truthy (get_prop (searchDefaults (exampleConfig\<lparr>searchDefaults := []\<rparr>)) ''limit'')
   \<and> getLimit (exampleConfig\<lparr>searchDefaults := []\<rparr>)
       (freshState\<lparr>appliedListings :=
          (\<lambda>key. Stored (exampleResult\<lparr>total := Some 25, limit := None\<rparr>))\<rparr>) = JNum 10"
  using getLimit_truthy [of exampleConfig
      "freshState\<lparr>appliedListings :=
          (\<lambda>key. Stored (exampleResult\<lparr>total := Some 25, limit := None\<rparr>))\<rparr>"]
    getLimit_truthy [of "exampleConfig\<lparr>searchDefaults := []\<rparr>"
      "freshState\<lparr>appliedListings :=
          (\<lambda>key. Stored (exampleResult\<lparr>total := Some 25, limit := None\<rparr>))\<rparr>"]
  by (simp add: eval_defs example_defs)

text \<open>
  C10 as stated lets the limits be any integers. A listing of 25 elements with the
  limit -10 has the page count \<^verbatim>\<open>Math.ceil(25 / -10)\<close>, which is -2 and no natural
  number.
\<close>

theorem negative_limit_counterexample:
  "getTotalPagesCount exampleConfig
     (freshState\<lparr>appliedListings :=
        (\<lambda>key. Stored (exampleResult\<lparr>total := Some 25, limit := Some (- 10)\<rparr>))\<rparr>)
     = Some (Fin (- 2))"
  by (simp add: eval_defs example_defs)

end
